theory Spec2Isabelle
  imports Main "HOL-Library.Char_ord" "HOL-Library.List_Lexorder"
begin

section \<open>JavaScript values and string helpers\<close>

text \<open>
  The values that reach the handlers of \<^verbatim>\<open>server.js\<close>: fields of a JSON request body,
  and the values pushed onto a statement's parameter list. The model covers the scalar
  values. A number is \<open>JNum n\<close> for an integral value \<open>n\<close>, or one of \<^verbatim>\<open>NaN\<close>,
  \<^verbatim>\<open>Infinity\<close> and \<^verbatim>\<open>-Infinity\<close>; numbers with a fraction, and arrays and objects as
  field values, are outside the model. Strings are ASCII text.
\<close>

datatype jsval =
  JUndefined | JNull | JBool bool | JNum int | JNaN | JInfinity | JNegInfinity | JStr string

text \<open>JavaScript truthiness, as tested by \<^verbatim>\<open>!x\<close> and \<^verbatim>\<open>if (x)\<close>.\<close>

fun truthy :: "jsval \<Rightarrow> bool" where
  "truthy JUndefined = False"
| "truthy JNull = False"
| "truthy (JBool b) = b"
| "truthy (JNum n) = (n \<noteq> 0)"
| "truthy JNaN = False"
| "truthy JInfinity = True"
| "truthy JNegInfinity = True"
| "truthy (JStr s) = (s \<noteq> [])"

definition digit_char :: "nat \<Rightarrow> char" where
  "digit_char d =
     (if d = 0 then CHR ''0'' else if d = 1 then CHR ''1'' else if d = 2 then CHR ''2''
      else if d = 3 then CHR ''3'' else if d = 4 then CHR ''4'' else if d = 5 then CHR ''5''
      else if d = 6 then CHR ''6'' else if d = 7 then CHR ''7'' else if d = 8 then CHR ''8''
      else CHR ''9'')"

fun digits :: "nat \<Rightarrow> string" where
  "digits n = (if n < 10 then [digit_char n] else digits (n div 10) @ [digit_char (n mod 10)])"

declare digits.simps [simp del]

definition string_of_int :: "int \<Rightarrow> string" where
  "string_of_int i = (if i < 0 then CHR ''-'' # digits (nat (- i)) else digits (nat i))"

text \<open>
  \<^verbatim>\<open>String(v)\<close>, the conversion that \<^verbatim>\<open>RegExp.prototype.test\<close> also applies. For
  \<open>JNum n\<close> it is the decimal numeral, which is what JavaScript prints for a magnitude
  below \<^verbatim>\<open>1e21\<close>; from there on JavaScript prints an exponent, a text that, like the
  long numeral, none of the patterns below matches.
\<close>

fun ToString :: "jsval \<Rightarrow> string" where
  "ToString JUndefined = ''undefined''"
| "ToString JNull = ''null''"
| "ToString (JBool b) = (if b then ''true'' else ''false'')"
| "ToString (JNum n) = string_of_int n"
| "ToString JNaN = ''NaN''"
| "ToString JInfinity = ''Infinity''"
| "ToString JNegInfinity = ''-Infinity''"
| "ToString (JStr s) = s"

definition padStart :: "nat \<Rightarrow> char \<Rightarrow> string \<Rightarrow> string" where
  "padStart n c s = replicate (n - length s) c @ s"

definition is_upper :: "char \<Rightarrow> bool" where
  "is_upper c = (CHR ''A'' \<le> c \<and> c \<le> CHR ''Z'')"

definition lower_char :: "char \<Rightarrow> char" where
  "lower_char c = (if is_upper c then char_of (of_char c + (32::nat)) else c)"

definition toLowerCase :: "string \<Rightarrow> string" where
  "toLowerCase s = map lower_char s"

fun starts_with :: "string \<Rightarrow> string \<Rightarrow> bool" where
  "starts_with s [] = True"
| "starts_with [] (p # ps) = False"
| "starts_with (c # cs) (p # ps) = (c = p \<and> starts_with cs ps)"

text \<open>\<^verbatim>\<open>s.includes(sub)\<close>: \<open>sub\<close> occurs in \<open>s\<close> as a contiguous substring.\<close>

fun str_includes :: "string \<Rightarrow> string \<Rightarrow> bool" where
  "str_includes [] sub = (sub = [])"
| "str_includes (c # cs) sub = (starts_with (c # cs) sub \<or> str_includes cs sub)"

section \<open>The pool and the resilient query executor\<close>

text \<open>
  An error thrown by \<^verbatim>\<open>pool.query\<close> carries a message. The first component of what
  \<^verbatim>\<open>pool.query\<close> resolves to is either an array of row objects or a result header;
  \<open>ZeroAffected\<close> is the object literal \<^verbatim>\<open>{ affectedRows: 0 }\<close> of the executor's last line.
\<close>

datatype js_error = Error (message: string)

type_synonym row = "(string \<times> jsval) list"

datatype qresult = Rows "row list" | ResultSetHeader int int | ZeroAffected

text \<open>\<^verbatim>\<open>result.insertId\<close>, \<^verbatim>\<open>result.affectedRows\<close> and \<^verbatim>\<open>results.length\<close>.\<close>

fun insertId :: "qresult \<Rightarrow> jsval" where
  "insertId (ResultSetHeader i a) = JNum i"
| "insertId (Rows rs) = JUndefined"
| "insertId ZeroAffected = JUndefined"

fun affectedRows :: "qresult \<Rightarrow> jsval" where
  "affectedRows (ResultSetHeader i a) = JNum a"
| "affectedRows (Rows rs) = JUndefined"
| "affectedRows ZeroAffected = JNum 0"

fun length_of :: "qresult \<Rightarrow> jsval" where
  "length_of (Rows rs) = JNum (int (length rs))"
| "length_of (ResultSetHeader i a) = JUndefined"
| "length_of ZeroAffected = JUndefined"

text \<open>
  The pool is the server's only access to the database. Its behaviour is a parameter of
  the model: a function from the pool's state, the statement text and the parameter list
  to what the call throws or resolves to, and the pool's next state.
\<close>

type_synonym 'p pool_query = "'p \<Rightarrow> string \<Rightarrow> jsval list \<Rightarrow> (js_error + qresult) \<times> 'p"

text \<open>
  What a request can change: the pool, and the trace of what the executor did, in the
  order it did it. An event is a statement handed to \<^verbatim>\<open>pool.query\<close> (one event per
  attempt) or a delay awaited through \<^verbatim>\<open>setTimeout\<close> (milliseconds).
\<close>

datatype event = Query string "jsval list" | Wait nat

record 'p world =
  pool :: 'p
  trace :: "event list"

definition attempt :: "'p world \<Rightarrow> 'p \<Rightarrow> string \<Rightarrow> jsval list \<Rightarrow> 'p world" where
  "attempt w p' sql params = w\<lparr>pool := p', trace := trace w @ [Query sql params]\<rparr>"

definition backoff :: "'p world \<Rightarrow> 'p world" where
  "backoff w = w\<lparr>trace := trace w @ [Wait 1000]\<rparr>"

text \<open>The statements of a trace, and its delays, each in order.\<close>

fun queries :: "event list \<Rightarrow> (string \<times> jsval list) list" where
  "queries [] = []"
| "queries (Query sql params # es) = (sql, params) # queries es"
| "queries (Wait ms # es) = queries es"

fun delays :: "event list \<Rightarrow> nat list" where
  "delays [] = []"
| "delays (Query sql params # es) = delays es"
| "delays (Wait ms # es) = ms # delays es"

definition issued :: "'p world \<Rightarrow> (string \<times> jsval list) list" where
  "issued w = queries (trace w)"

definition slept :: "'p world \<Rightarrow> nat list" where
  "slept w = delays (trace w)"

function queryWithRetry ::
  "'p pool_query \<Rightarrow> string \<Rightarrow> jsval list \<Rightarrow> int \<Rightarrow> 'p world \<Rightarrow> (js_error + qresult) \<times> 'p world"
where
  "queryWithRetry q sql params retries w =
     (if retries > 0 then
        (case q (pool w) sql params of
           (Inr result, p') \<Rightarrow> (Inr result, attempt w p' sql params)
         | (Inl err, p') \<Rightarrow>
             if str_includes (message err) ''closed state'' \<and> retries > 1
             then queryWithRetry q sql params (retries - 1) (backoff (attempt w p' sql params))
             else (Inl err, attempt w p' sql params))
      else (Inr (if str_includes (toLowerCase sql) ''select'' then Rows [] else ZeroAffected), w))"
  by pat_completeness auto
termination
  by (relation "measure (\<lambda>(q, sql, params, retries, w). nat retries)") auto

declare queryWithRetry.simps [simp del]

section \<open>Regular expressions and \<^verbatim>\<open>parseInt\<close>\<close>

text \<open>
  The patterns of \<^verbatim>\<open>server.js\<close> are anchored sequences of \<^verbatim>\<open>\d\<close> (an ASCII digit) and
  literal characters; \<open>regex_test\<close> is \<^verbatim>\<open>/^...$/.test(s)\<close> for such a pattern.
\<close>

datatype atom = Digit | Lit char

definition is_digit :: "char \<Rightarrow> bool" where
  "is_digit c = (CHR ''0'' \<le> c \<and> c \<le> CHR ''9'')"

fun regex_test :: "atom list \<Rightarrow> string \<Rightarrow> bool" where
  "regex_test [] s = (s = [])"
| "regex_test (a # as) [] = False"
| "regex_test (Digit # as) (c # cs) = (is_digit c \<and> regex_test as cs)"
| "regex_test (Lit x # as) (c # cs) = (c = x \<and> regex_test as cs)"

text \<open>\<^verbatim>\<open>/^\d{4}-\d{2}-\d{2}$/\<close>\<close>

definition date_re :: "atom list" where
  "date_re = [Digit, Digit, Digit, Digit, Lit CHR ''-'', Digit, Digit, Lit CHR ''-'', Digit, Digit]"

text \<open>\<^verbatim>\<open>/^[0-9]{10}$/\<close>\<close>

definition contact_re :: "atom list" where
  "contact_re = [Digit, Digit, Digit, Digit, Digit, Digit, Digit, Digit, Digit, Digit]"

text \<open>\<^verbatim>\<open>/^\d{2}:\d{2}:\d{2}$/\<close> and \<^verbatim>\<open>/^\d{2}:\d{2}$/\<close>\<close>

definition time_sec_re :: "atom list" where
  "time_sec_re = [Digit, Digit, Lit CHR '':'', Digit, Digit, Lit CHR '':'', Digit, Digit]"

definition time_re :: "atom list" where
  "time_re = [Digit, Digit, Lit CHR '':'', Digit, Digit]"

definition is_space :: "char \<Rightarrow> bool" where
  "is_space c = (c = CHR '' '' \<or> c = CHR 0x09 \<or> c = CHR 0x0A \<or> c = CHR 0x0B
                 \<or> c = CHR 0x0C \<or> c = CHR 0x0D)"

text \<open>The value of a character as a digit of radix up to 16.\<close>

definition digit_val :: "char \<Rightarrow> nat option" where
  "digit_val c =
     (if is_digit c then Some (of_char c - 48)
      else if CHR ''a'' \<le> c \<and> c \<le> CHR ''f'' then Some (of_char c - 87)
      else if CHR ''A'' \<le> c \<and> c \<le> CHR ''F'' then Some (of_char c - 55)
      else None)"

definition in_radix :: "nat \<Rightarrow> char \<Rightarrow> bool" where
  "in_radix r c = (case digit_val c of None \<Rightarrow> False | Some d \<Rightarrow> d < r)"

definition radix_value :: "nat \<Rightarrow> string \<Rightarrow> nat" where
  "radix_value r ds = foldl (\<lambda>acc c. acc * r + (case digit_val c of None \<Rightarrow> 0 | Some d \<Rightarrow> d)) 0 ds"

text \<open>
  The number that \<^verbatim>\<open>parseInt\<close> returns: \<^verbatim>\<open>NaN\<close>, an integral value, or an infinity.
\<close>

datatype number = NaN | Finite int | PosInfinity | NegInfinity

fun isNaN :: "number \<Rightarrow> bool" where
  "isNaN NaN = True"
| "isNaN (Finite n) = False"
| "isNaN PosInfinity = False"
| "isNaN NegInfinity = False"

text \<open>\<^verbatim>\<open>x < k\<close> and \<^verbatim>\<open>x > k\<close> for a number and an integer literal.\<close>

fun num_less :: "number \<Rightarrow> int \<Rightarrow> bool" where
  "num_less NaN k = False"
| "num_less (Finite n) k = (n < k)"
| "num_less PosInfinity k = False"
| "num_less NegInfinity k = True"

fun num_greater :: "number \<Rightarrow> int \<Rightarrow> bool" where
  "num_greater NaN k = False"
| "num_greater (Finite n) k = (n > k)"
| "num_greater PosInfinity k = True"
| "num_greater NegInfinity k = False"

text \<open>A number as a value pushed onto a parameter list.\<close>

fun jsnum :: "number \<Rightarrow> jsval" where
  "jsnum NaN = JNaN"
| "jsnum (Finite n) = JNum n"
| "jsnum PosInfinity = JInfinity"
| "jsnum NegInfinity = JNegInfinity"

text \<open>
  JavaScript numbers are IEEE 754 doubles. \<open>round_double n\<close> is the double nearest to the
  natural number \<open>n\<close>: \<open>n\<close> itself when it has at most 53 bits, else \<open>n\<close> rounded to 53
  significant bits, a tie going to the even significand; \<open>None\<close> when the result is
  beyond the largest double, where the number is \<^verbatim>\<open>Infinity\<close>.
\<close>

fun bitlen :: "nat \<Rightarrow> nat" where
  "bitlen n = (if n = 0 then 0 else Suc (bitlen (n div 2)))"

declare bitlen.simps [simp del]

definition round_double :: "nat \<Rightarrow> nat option" where
  "round_double n =
     (if bitlen n \<le> 53 then Some n
      else
        (let sh = bitlen n - 53;
             q = n div 2 ^ sh;
             r = n mod 2 ^ sh;
             half = 2 ^ (sh - 1);
             q' = (if half < r \<or> (r = half \<and> odd q) then q + 1 else q)
         in if 2 ^ 1024 \<le> q' * 2 ^ sh then None else Some (q' * 2 ^ sh)))"

text \<open>
  \<^verbatim>\<open>parseInt(s)\<close> with no radix: leading white space is skipped, a sign is read, a
  \<^verbatim>\<open>0x\<close> prefix selects radix 16, and the longest run of digits is read as an integer;
  the result is the double nearest to it, with the sign, and \<^verbatim>\<open>NaN\<close> when there is no
  digit.
\<close>

definition parseInt :: "string \<Rightarrow> number" where
  "parseInt s =
     (let s1 = dropWhile is_space s;
          neg = starts_with s1 ''-'';
          s2 = (if starts_with s1 ''-'' \<or> starts_with s1 ''+'' then drop 1 s1 else s1);
          hex = (starts_with s2 ''0x'' \<or> starts_with s2 ''0X'');
          radix = (if hex then 16 else 10);
          s3 = (if hex then drop 2 s2 else s2);
          ds = takeWhile (in_radix radix) s3
      in if ds = [] then NaN
         else (case round_double (radix_value radix ds) of
                 None \<Rightarrow> if neg then NegInfinity else PosInfinity
               | Some v \<Rightarrow> Finite (if neg then - int v else int v)))"

section \<open>Requests and responses\<close>

text \<open>
  A response is a status code and a JSON body; the bodies are the object shapes that the
  handlers pass to \<^verbatim>\<open>res.json\<close>.
\<close>

datatype json =
    ErrorJson string
  | ResultJson qresult
  | CreatedJson string string
  | MessageJson string
  | NotificationsJson string qresult

datatype response = Response nat json

fun status :: "response \<Rightarrow> nat" where
  "status (Response c b) = c"

fun body :: "response \<Rightarrow> json" where
  "body (Response c b) = b"

text \<open>
  A query parameter of \<^verbatim>\<open>req.query\<close> is absent or a string (a key given once, without
  brackets); \<open>qval\<close> is the value the handler reads.
\<close>

fun qval :: "string option \<Rightarrow> jsval" where
  "qval None = JUndefined"
| "qval (Some s) = JStr s"

record filter_query =
  date :: "string option"
  month :: "string option"
  year :: "string option"
  branch :: "string option"

text \<open>
  The fields destructured from \<^verbatim>\<open>req.body\<close>; an absent key reads as \<open>JUndefined\<close>. The
  field \<^verbatim>\<open>branch\<close> of the body is \<open>branch_field\<close> here.
\<close>

record booking_body =
  customerName :: jsval
  contactNumber :: jsval
  eventDate :: jsval
  eventTime :: jsval
  branch_field :: jsval
  selectedPackage :: jsval
  amount :: jsval
  celebrationType :: jsval

section \<open>Filter bookings\<close>

definition nl :: string where
  "nl = [CHR 0x0A]"

definition select_columns :: string where
  "select_columns =
     nl @ ''        SELECT id, uniqueId, customerName, contactNumber, ''
   @ nl @ ''               DATE_FORMAT(eventDate, '%d-%m-%Y') AS eventDate, ''
   @ nl @ ''               TIME_FORMAT(eventTime, '%H:%i') AS eventTime, ''
   @ nl @ ''               branch, selectedPackage, amount, celebrationType ''
   @ nl @ ''        FROM bookings ''"

definition filter_base :: string where
  "filter_base = select_columns @ nl @ ''        WHERE 1=1'' @ nl @ ''    ''"

text \<open>
  Lines 71 to 101 of the filter handler: the statement text and the parameter list are
  built side by side; an invalid parameter ends the request with a 400 response.
\<close>

definition buildFilter :: "filter_query \<Rightarrow> response + (string \<times> jsval list)" where
  "buildFilter q =
     (case
        (if truthy (qval (date q)) then
           (if \<not> regex_test date_re (ToString (qval (date q)))
            then Inl (Response 400 (ErrorJson ''Invalid date format: Use YYYY-MM-DD''))
            else Inr (filter_base @ '' AND eventDate = ?'', [] @ [qval (date q)]))
         else if truthy (qval (month q)) \<and> truthy (qval (year q)) then
           (let monthNum = parseInt (ToString (qval (month q)));
                yearNum = parseInt (ToString (qval (year q)))
            in if isNaN monthNum \<or> num_less monthNum 1 \<or> num_greater monthNum 12
                  \<or> isNaN yearNum \<or> num_less yearNum 1000
               then Inl (Response 400 (ErrorJson ''Invalid month or year''))
               else Inr (filter_base @ '' AND MONTH(eventDate) = ? AND YEAR(eventDate) = ?'',
                         [] @ [jsnum monthNum, jsnum yearNum]))
         else Inr (filter_base, []))
      of
        Inl r \<Rightarrow> Inl r
      | Inr (query, params) \<Rightarrow>
          if truthy (qval (branch q)) \<and> branch q \<noteq> Some ''All''
          then Inr (query @ '' AND branch = ?'', params @ [qval (branch q)])
          else Inr (query, params))"

definition get_bookings_filter ::
  "'p pool_query \<Rightarrow> filter_query \<Rightarrow> 'p world \<Rightarrow> response \<times> 'p world"
where
  "get_bookings_filter q req w =
     (case buildFilter req of
        Inl r \<Rightarrow> (r, w)
      | Inr (query, params) \<Rightarrow>
          (case queryWithRetry q query params 3 w of
             (Inr results, w') \<Rightarrow>
               if length_of results = JNum 0
               then (Response 404 (ErrorJson ''No bookings found for the selected filters''), w')
               else (Response 200 (ResultJson results), w')
           | (Inl err, w') \<Rightarrow>
               (Response 500 (ErrorJson (''Error fetching filtered bookings: '' @ message err)), w')))"

section \<open>Create and update a booking\<close>

text \<open>The required-field test shared by the create and the update handler.\<close>

definition missing_fields :: "booking_body \<Rightarrow> bool" where
  "missing_fields b =
     (\<not> truthy (customerName b) \<or> \<not> truthy (contactNumber b) \<or> \<not> truthy (eventDate b)
      \<or> \<not> truthy (eventTime b) \<or> \<not> truthy (branch_field b) \<or> \<not> truthy (selectedPackage b)
      \<or> \<not> truthy (amount b) \<or> \<not> truthy (celebrationType b))"

definition insert_sql :: string where
  "insert_sql =
     nl @ ''        INSERT INTO bookings (customerName, contactNumber, eventDate, eventTime, branch, selectedPackage, amount, celebrationType)''
   @ nl @ ''        VALUES (?, ?, ?, ?, ?, ?, ?, ?)''
   @ nl @ ''    ''"

definition stamp_sql :: string where
  "stamp_sql = ''UPDATE bookings SET uniqueId = ? WHERE id = ?''"

text \<open>\<^verbatim>\<open>String(result.insertId).padStart(5, '0')\<close>\<close>

definition bookingId_of :: "qresult \<Rightarrow> string" where
  "bookingId_of result = padStart 5 CHR ''0'' (ToString (insertId result))"

definition post_bookings ::
  "'p pool_query \<Rightarrow> booking_body \<Rightarrow> 'p world \<Rightarrow> response \<times> 'p world"
where
  "post_bookings q b w =
     (if missing_fields b then (Response 400 (ErrorJson ''All fields required''), w)
      else
        (case queryWithRetry q insert_sql
                [customerName b, contactNumber b, eventDate b, eventTime b, branch_field b,
                 selectedPackage b, amount b, celebrationType b] 3 w of
           (Inl err, w1) \<Rightarrow>
             (Response 500 (ErrorJson (''Error creating booking: '' @ message err)), w1)
         | (Inr result, w1) \<Rightarrow>
             (let bookingId = bookingId_of result in
              case queryWithRetry q stamp_sql [JStr bookingId, insertId result] 3 w1 of
                (Inl err, w2) \<Rightarrow>
                  (Response 500 (ErrorJson (''Error creating booking: '' @ message err)), w2)
              | (Inr stamped, w2) \<Rightarrow>
                  (Response 201 (CreatedJson ''Booking created'' bookingId), w2))))"

definition update_sql :: string where
  "update_sql =
     nl @ ''        UPDATE bookings ''
   @ nl @ ''        SET customerName = ?, contactNumber = ?, eventDate = ?, eventTime = ?, ''
   @ nl @ ''            branch = ?, selectedPackage = ?, amount = ?, celebrationType = ?''
   @ nl @ ''        WHERE id = ?''
   @ nl @ ''    ''"

text \<open>
  \<^verbatim>\<open>eventTime.slice(0, 5)\<close>. The call is reached only after the \<^verbatim>\<open>HH:MM:SS\<close> pattern
  matched, which among the modelled values only a string does (lemma
  \<open>time_sec_is_string\<close> below).
\<close>

fun slice_0_5 :: "jsval \<Rightarrow> jsval" where
  "slice_0_5 (JStr s) = JStr (take 5 s)"
| "slice_0_5 v = v"

text \<open>The \<^verbatim>\<open>try\<close> block of the update handler, given the normalised time.\<close>

definition run_update ::
  "'p pool_query \<Rightarrow> string \<Rightarrow> booking_body \<Rightarrow> jsval \<Rightarrow> 'p world \<Rightarrow> response \<times> 'p world"
where
  "run_update q ident b normalizedTime w =
     (case queryWithRetry q update_sql
             [customerName b, contactNumber b, eventDate b, normalizedTime, branch_field b,
              selectedPackage b, amount b, celebrationType b, JStr ident] 3 w of
        (Inl err, w') \<Rightarrow>
          (Response 500 (ErrorJson (''Error updating booking: '' @ message err)), w')
      | (Inr result, w') \<Rightarrow>
          if affectedRows result = JNum 0
          then (Response 404 (ErrorJson ''Booking not found''), w')
          else (Response 200 (MessageJson ''Booking updated''), w'))"

definition put_bookings ::
  "'p pool_query \<Rightarrow> string \<Rightarrow> booking_body \<Rightarrow> 'p world \<Rightarrow> response \<times> 'p world"
where
  "put_bookings q ident b w =
     (if missing_fields b then (Response 400 (ErrorJson ''All fields required''), w)
      else if \<not> regex_test contact_re (ToString (contactNumber b))
      then (Response 400 (ErrorJson ''Invalid contact number: Must be 10 digits''), w)
      else if \<not> regex_test date_re (ToString (eventDate b))
      then (Response 400 (ErrorJson ''Invalid date format: Use YYYY-MM-DD''), w)
      else if regex_test time_sec_re (ToString (eventTime b))
      then run_update q ident b (slice_0_5 (eventTime b)) w
      else if \<not> regex_test time_re (ToString (eventTime b))
      then (Response 400 (ErrorJson ''Invalid time format: Use HH:MM or HH:MM:SS''), w)
      else run_update q ident b (eventTime b) w)"

section \<open>Notifications\<close>

text \<open>
  The handler reads the clock once. Its two renderings of tomorrow's date are inputs of
  the model: \<open>tomorrowDate\<close> is \<^verbatim>\<open>tomorrow.toISOString().split('T')[0]\<close> and
  \<open>tomorrowFormatted\<close> is the day-month-year text of the response message.
\<close>

record clock =
  tomorrowDate :: string
  tomorrowFormatted :: string

definition notifications_sql :: string where
  "notifications_sql =
     select_columns @ nl @ ''        WHERE eventDate = ?''
   @ nl @ ''        ORDER BY eventTime ASC'' @ nl @ ''    ''"

definition get_notifications ::
  "'p pool_query \<Rightarrow> clock \<Rightarrow> string option \<Rightarrow> 'p world \<Rightarrow> response \<times> 'p world"
where
  "get_notifications q clk admin w =
     (let isAdmin = (qval admin = JStr ''true'') in
      if \<not> isAdmin then (Response 403 (ErrorJson ''Access denied: Admin only''), w)
      else
        (case queryWithRetry q notifications_sql [JStr (tomorrowDate clk)] 3 w of
           (Inr results, w') \<Rightarrow>
             (Response 200
                (NotificationsJson (''Bookings for tomorrow ('' @ tomorrowFormatted clk @ '')'') results),
              w')
         | (Inl err, w') \<Rightarrow>
             (Response 500 (ErrorJson (''Error fetching notifications: '' @ message err)), w')))"

section \<open>A reference database\<close>

text \<open>
  The database server is not part of the repository. To run the handlers on concrete
  inputs, and to state what a result set contains, the pool is instantiated with a small
  in-memory database that understands the statements of the filter, create and
  notification handlers: the \<^verbatim>\<open>SELECT\<close> over \<^verbatim>\<open>bookings\<close> with a conjunction of
  placeholder comparisons and an optional \<^verbatim>\<open>ORDER BY eventTime ASC\<close>, the \<^verbatim>\<open>INSERT\<close>, and
  the \<^verbatim>\<open>UPDATE\<close> that sets \<^verbatim>\<open>uniqueId\<close>. Statement text is split at white space and
  interpreted; placeholders are bound to the parameters by position. A \<^verbatim>\<open>DATE\<close> is held
  as its \<^verbatim>\<open>YYYY-MM-DD\<close> text and a \<^verbatim>\<open>TIME\<close> as its \<^verbatim>\<open>HH:MM:SS\<close> text; strings compare
  character by character.
\<close>

record booking_row =
  c_id :: int
  c_uniqueId :: "string option"
  c_customerName :: string
  c_contactNumber :: string
  c_eventDate :: string
  c_eventTime :: string
  c_branch :: string
  c_selectedPackage :: string
  c_amount :: int
  c_celebrationType :: string

record db_pool =
  bookings :: "booking_row list"
  auto_increment :: int
  outages :: "string list"

fun sql_words_from :: "string \<Rightarrow> string \<Rightarrow> string list" where
  "sql_words_from cur [] = (if cur = [] then [] else [cur])"
| "sql_words_from cur (c # cs) =
     (if is_space c then (if cur = [] then sql_words_from [] cs else cur # sql_words_from [] cs)
      else sql_words_from (cur @ [c]) cs)"

definition sql_words :: "string \<Rightarrow> string list" where
  "sql_words s = sql_words_from [] s"

datatype column = ColEventDate | ColMonth | ColYear | ColBranch | ColId

datatype cond = Always | Equals column

fun column_of :: "string \<Rightarrow> column option" where
  "column_of s =
     (if s = ''eventDate'' then Some ColEventDate
      else if s = ''MONTH(eventDate)'' then Some ColMonth
      else if s = ''YEAR(eventDate)'' then Some ColYear
      else if s = ''branch'' then Some ColBranch
      else if s = ''id'' then Some ColId
      else None)"

text \<open>
  A conjunction: comparisons separated by \<^verbatim>\<open>AND\<close>, each \<^verbatim>\<open>1=1\<close> or \<^verbatim>\<open>column = ?\<close>.
\<close>

fun split_and :: "string list \<Rightarrow> string list list" where
  "split_and [] = [[]]"
| "split_and (t # ts) =
     (if t = ''AND'' then [] # split_and ts
      else (case split_and ts of g # gs \<Rightarrow> (t # g) # gs | [] \<Rightarrow> [[t]]))"

definition parse_cond :: "string list \<Rightarrow> cond option" where
  "parse_cond ts =
     (case ts of
        [t] \<Rightarrow> if t = ''1=1'' then Some Always else None
      | [c, e, p] \<Rightarrow> if e = ''='' \<and> p = ''?'' then map_option Equals (column_of c) else None
      | _ \<Rightarrow> None)"

definition parse_conds :: "string list \<Rightarrow> cond list option" where
  "parse_conds ts = those (map parse_cond (split_and ts))"

definition order_words :: "string list" where
  "order_words = [''ORDER'', ''BY'', ''eventTime'', ''ASC'']"

text \<open>
  The text after \<^verbatim>\<open>FROM bookings\<close>: nothing, a \<^verbatim>\<open>WHERE\<close> clause, and then possibly the
  ordering; the result is the conditions and whether the rows are ordered.
\<close>

definition parse_tail :: "string list \<Rightarrow> (cond list \<times> bool) option" where
  "parse_tail ts =
     (let ordered = (length order_words \<le> length ts
                     \<and> drop (length ts - length order_words) ts = order_words);
          ws = (if ordered then take (length ts - length order_words) ts else ts)
      in case ws of
           [] \<Rightarrow> Some ([], ordered)
         | t # cs \<Rightarrow> if t = ''WHERE'' then map_option (\<lambda>c. (c, ordered)) (parse_conds cs) else None)"

definition parse_select :: "string list \<Rightarrow> (cond list \<times> bool) option" where
  "parse_select ts =
     (let head = sql_words select_columns in
      if take (length head) ts = head then parse_tail (drop (length head) ts) else None)"

text \<open>Placeholders take the parameters in order; a placeholder left without one is an error.\<close>

fun bind :: "cond list \<Rightarrow> jsval list \<Rightarrow> (column \<times> jsval) list option" where
  "bind [] ps = Some []"
| "bind (Always # cs) ps = bind cs ps"
| "bind (Equals c # cs) [] = None"
| "bind (Equals c # cs) (p # ps) = map_option ((#) (c, p)) (bind cs ps)"

definition digits_value :: "string \<Rightarrow> int" where
  "digits_value s = int (radix_value 10 s)"

fun holds :: "booking_row \<Rightarrow> column \<times> jsval \<Rightarrow> bool" where
  "holds r (ColEventDate, v) = (v = JStr (c_eventDate r))"
| "holds r (ColMonth, v) = (v = JNum (digits_value (take 2 (drop 5 (c_eventDate r)))))"
| "holds r (ColYear, v) = (v = JNum (digits_value (take 4 (c_eventDate r))))"
| "holds r (ColBranch, v) = (v = JStr (c_branch r))"
| "holds r (ColId, v) = (v = JNum (c_id r))"

text \<open>\<^verbatim>\<open>DATE_FORMAT(eventDate, '%d-%m-%Y')\<close> and \<^verbatim>\<open>TIME_FORMAT(eventTime, '%H:%i')\<close>.\<close>

definition date_format :: "string \<Rightarrow> string" where
  "date_format d = drop 8 d @ ''-'' @ take 2 (drop 5 d) @ ''-'' @ take 4 d"

definition time_format :: "string \<Rightarrow> string" where
  "time_format t = take 5 t"

definition render :: "booking_row \<Rightarrow> row" where
  "render r =
     [(''id'', JNum (c_id r)),
      (''uniqueId'', (case c_uniqueId r of None \<Rightarrow> JNull | Some u \<Rightarrow> JStr u)),
      (''customerName'', JStr (c_customerName r)),
      (''contactNumber'', JStr (c_contactNumber r)),
      (''eventDate'', JStr (date_format (c_eventDate r))),
      (''eventTime'', JStr (time_format (c_eventTime r))),
      (''branch'', JStr (c_branch r)),
      (''selectedPackage'', JStr (c_selectedPackage r)),
      (''amount'', JNum (c_amount r)),
      (''celebrationType'', JStr (c_celebrationType r))]"

text \<open>
  The selected rows. \<^verbatim>\<open>ORDER BY eventTime\<close> names the select list's alias
  \<^verbatim>\<open>eventTime\<close>, the formatted text, so that is the sort key.
\<close>

definition select_rows :: "booking_row list \<Rightarrow> (column \<times> jsval) list \<Rightarrow> bool \<Rightarrow> booking_row list" where
  "select_rows tbl bs ordered =
     (let sel = filter (\<lambda>r. list_all (holds r) bs) tbl
      in if ordered then sort_key (\<lambda>r. time_format (c_eventTime r)) sel else sel)"

text \<open>A number that is written into the statement text as a bare word, not a literal.\<close>

fun non_finite :: "jsval \<Rightarrow> bool" where
  "non_finite JNaN = True"
| "non_finite JInfinity = True"
| "non_finite JNegInfinity = True"
| "non_finite v = False"

definition unknown_column :: js_error where
  "unknown_column = Error ''Unknown column in where clause''"

definition syntax_error :: js_error where
  "syntax_error = Error ''You have an error in your SQL syntax''"

definition value_error :: js_error where
  "value_error = Error ''Incorrect value for column''"

text \<open>The new row of an \<^verbatim>\<open>INSERT\<close>, when the eight parameters fit the columns.\<close>

fun str_of :: "jsval \<Rightarrow> string option" where
  "str_of (JStr s) = Some s"
| "str_of v = None"

fun num_of :: "jsval \<Rightarrow> int option" where
  "num_of (JNum n) = Some n"
| "num_of v = None"

definition new_row :: "int \<Rightarrow> jsval list \<Rightarrow> booking_row option" where
  "new_row i ps =
     (case ps of
        [a, b, c, d, e, f, g, h] \<Rightarrow>
          (case (str_of a, str_of b, str_of c, str_of d, str_of e, str_of f, num_of g, str_of h) of
             (Some name, Some contact, Some dt, Some t, Some br, Some pkg, Some amt, Some ct) \<Rightarrow>
               if regex_test date_re dt \<and> (regex_test time_sec_re t \<or> regex_test time_re t)
               then Some \<lparr>c_id = i, c_uniqueId = None, c_customerName = name,
                          c_contactNumber = contact, c_eventDate = dt,
                          c_eventTime = (if regex_test time_re t then t @ '':00'' else t),
                          c_branch = br, c_selectedPackage = pkg, c_amount = amt,
                          c_celebrationType = ct\<rparr>
               else None
           | _ \<Rightarrow> None)
      | _ \<Rightarrow> None)"

definition execute :: "db_pool \<Rightarrow> string \<Rightarrow> jsval list \<Rightarrow> js_error + (qresult \<times> db_pool)" where
  "execute p sql params =
     (let ws = sql_words sql in
      if ws = sql_words insert_sql then
        (case new_row (auto_increment p) params of
           None \<Rightarrow> Inl value_error
         | Some r \<Rightarrow>
             Inr (ResultSetHeader (auto_increment p) 1,
                  p\<lparr>bookings := bookings p @ [r], auto_increment := auto_increment p + 1\<rparr>))
      else if ws = sql_words stamp_sql then
        (case params of
           JStr u # JNum i # rest \<Rightarrow>
             Inr (ResultSetHeader 0 (int (length (filter (\<lambda>r. c_id r = i) (bookings p)))),
                  p\<lparr>bookings := map (\<lambda>r. if c_id r = i then r\<lparr>c_uniqueId := Some u\<rparr> else r)
                                     (bookings p)\<rparr>)
         | _ \<Rightarrow> Inl value_error)
      else
        (case parse_select ws of
           None \<Rightarrow> Inl syntax_error
         | Some (conds, ordered) \<Rightarrow>
             (case bind conds params of
                None \<Rightarrow> Inl syntax_error
              | Some bs \<Rightarrow>
                  if list_ex (\<lambda>b. non_finite (snd b)) bs then Inl unknown_column
                  else Inr (Rows (map render (select_rows (bookings p) bs ordered)), p))))"

text \<open>
  One call of \<^verbatim>\<open>pool.query\<close>: while outages are scheduled, the call consumes the next
  one and throws an error with its message; otherwise the statement is executed.
\<close>

definition db_query :: "db_pool pool_query" where
  "db_query p sql params =
     (case outages p of
        msg # rest \<Rightarrow> (Inl (Error msg), p\<lparr>outages := rest\<rparr>)
      | [] \<Rightarrow>
          (case execute p sql params of
             Inl e \<Rightarrow> (Inl e, p)
           | Inr (r, p') \<Rightarrow> (Inr r, p')))"

section \<open>Notions used to state the properties\<close>

text \<open>The number of \<^verbatim>\<open>?\<close> placeholders in a statement text.\<close>

definition placeholders :: "string \<Rightarrow> nat" where
  "placeholders s = length (filter (\<lambda>c. c = CHR ''?'') s)"

text \<open>
  The filter builder as the specification describes it: the predicate fragments in the
  order they are appended, each with the values for its own placeholders. Rule 1 (exact
  date) excludes rule 2 (month and year); rule 3 (branch) is independent of both.
\<close>

definition spec_fragments :: "filter_query \<Rightarrow> (string \<times> jsval list) list" where
  "spec_fragments req =
     (if truthy (qval (date req)) then [('' AND eventDate = ?'', [qval (date req)])]
      else if truthy (qval (month req)) \<and> truthy (qval (year req)) then
        [('' AND MONTH(eventDate) = ? AND YEAR(eventDate) = ?'',
          [jsnum (parseInt (ToString (qval (month req)))),
           jsnum (parseInt (ToString (qval (year req))))])]
      else [])
     @ (if truthy (qval (branch req)) \<and> branch req \<noteq> Some ''All''
        then [('' AND branch = ?'', [qval (branch req)])] else [])"

text \<open>The comparisons that the same rules ask for, as column and value.\<close>

definition spec_bindings :: "filter_query \<Rightarrow> (column \<times> jsval) list" where
  "spec_bindings req =
     (if truthy (qval (date req)) then [(ColEventDate, qval (date req))]
      else if truthy (qval (month req)) \<and> truthy (qval (year req)) then
        [(ColMonth, jsnum (parseInt (ToString (qval (month req))))),
         (ColYear, jsnum (parseInt (ToString (qval (year req)))))]
      else [])
     @ (if truthy (qval (branch req)) \<and> branch req \<noteq> Some ''All''
        then [(ColBranch, qval (branch req))] else [])"

text \<open>
  The validation of the same rules: a date must match \<^verbatim>\<open>YYYY-MM-DD\<close>; a month must be a
  number from 1 to 12 and a year a number of at least 1000. \<open>spec_rejection\<close> is the 400
  response of a request that fails it, and \<open>None\<close> for a request that passes.
\<close>

fun month_ok :: "number \<Rightarrow> bool" where
  "month_ok (Finite n) = (1 \<le> n \<and> n \<le> 12)"
| "month_ok x = False"

fun year_ok :: "number \<Rightarrow> bool" where
  "year_ok (Finite n) = (1000 \<le> n)"
| "year_ok PosInfinity = True"
| "year_ok x = False"

definition spec_rejection :: "filter_query \<Rightarrow> response option" where
  "spec_rejection req =
     (if truthy (qval (date req)) then
        (if regex_test date_re (ToString (qval (date req))) then None
         else Some (Response 400 (ErrorJson ''Invalid date format: Use YYYY-MM-DD'')))
      else if truthy (qval (month req)) \<and> truthy (qval (year req)) then
        (if month_ok (parseInt (ToString (qval (month req))))
            \<and> year_ok (parseInt (ToString (qval (year req))))
         then None
         else Some (Response 400 (ErrorJson ''Invalid month or year'')))
      else None)"

text \<open>The values of the required fields of a request body, in the order they are tested.\<close>

definition required_values :: "booking_body \<Rightarrow> jsval list" where
  "required_values b =
     [customerName b, contactNumber b, eventDate b, eventTime b, branch_field b,
      selectedPackage b, amount b, celebrationType b]"

text \<open>The \<^verbatim>\<open>eventTime\<close> property of a row object of a response.\<close>

definition eventTime_text :: "row \<Rightarrow> string" where
  "eventTime_text r = (case map_of r ''eventTime'' of Some (JStr s) \<Rightarrow> s | _ \<Rightarrow> [])"

text \<open>Whether a stored booking passes a request's branch filter.\<close>

definition branch_matches :: "string option \<Rightarrow> booking_row \<Rightarrow> bool" where
  "branch_matches b r =
     (case b of None \<Rightarrow> True | Some s \<Rightarrow> s = [] \<or> s = ''All'' \<or> c_branch r = s)"

text \<open>
  The stored bookings that a filter by exact date selects: those on that date that also
  pass the branch filter.
\<close>

definition date_selection :: "string \<Rightarrow> string option \<Rightarrow> booking_row list \<Rightarrow> booking_row list" where
  "date_selection d b tbl = filter (\<lambda>r. c_eventDate r = d \<and> branch_matches b r) tbl"

text \<open>The stored bookings of tomorrow's date, ordered by their formatted time.\<close>

definition tomorrow_rows :: "clock \<Rightarrow> booking_row list \<Rightarrow> booking_row list" where
  "tomorrow_rows clk tbl =
     sort_key (\<lambda>r. time_format (c_eventTime r)) (filter (\<lambda>r. c_eventDate r = tomorrowDate clk) tbl)"

section \<open>Example data\<close>

definition row1 :: booking_row where
  "row1 = \<lparr>c_id = 1, c_uniqueId = Some ''00001'', c_customerName = ''Asha'',
            c_contactNumber = ''9876543210'', c_eventDate = ''2025-03-10'',
            c_eventTime = ''18:30:00'', c_branch = ''Pune'', c_selectedPackage = ''Gold'',
            c_amount = 500, c_celebrationType = ''Birthday''\<rparr>"

definition row2 :: booking_row where
  "row2 = \<lparr>c_id = 2, c_uniqueId = Some ''00002'', c_customerName = ''Ravi'',
            c_contactNumber = ''9123456780'', c_eventDate = ''2025-03-10'',
            c_eventTime = ''09:00:00'', c_branch = ''Mumbai'', c_selectedPackage = ''Silver'',
            c_amount = 300, c_celebrationType = ''Anniversary''\<rparr>"

text \<open>A pool over a table of two bookings, with a given schedule of outages.\<close>

definition pool_with :: "string list \<Rightarrow> db_pool" where
  "pool_with os = \<lparr>bookings = [row1, row2], auto_increment = 3, outages = os\<rparr>"

definition world_with :: "string list \<Rightarrow> db_pool world" where
  "world_with os = \<lparr>pool = pool_with os, trace = []\<rparr>"

definition closed_msg :: string where
  "closed_msg = ''Can't add new command when connection is in closed state''"

definition denied_msg :: string where
  "denied_msg = ''Access denied for user''"

definition body1 :: booking_body where
  "body1 = \<lparr>customerName = JStr ''Meera'', contactNumber = JStr ''9000000001'',
             eventDate = JStr ''2025-04-01'', eventTime = JStr ''17:00'',
             branch_field = JStr ''Pune'', selectedPackage = JStr ''Gold'', amount = JNum 750,
             celebrationType = JStr ''Birthday''\<rparr>"


definition clock1 :: clock where
  "clock1 = \<lparr>tomorrowDate = ''2025-03-10'', tomorrowFormatted = ''10-03-2025''\<rparr>"

definition req_march :: filter_query where
  "req_march = \<lparr>date = None, month = Some ''3'', year = Some ''2025'', branch = Some ''Pune''\<rparr>"

definition req_bad_date :: filter_query where
  "req_bad_date = \<lparr>date = Some ''10-03-2025'', month = Some ''3'', year = Some ''2025'',
                    branch = Some ''Pune''\<rparr>"

definition req_big_year :: filter_query where
  "req_big_year = \<lparr>date = None, month = Some ''3'', year = Some ''9007199254740993'',
                    branch = None\<rparr>"

definition req_none :: filter_query where
  "req_none = \<lparr>date = None, month = None, year = None, branch = None\<rparr>"

definition row3 :: booking_row where
  "row3 = \<lparr>c_id = 3, c_uniqueId = Some ''00003'', c_customerName = ''Meera'',
            c_contactNumber = ''9000000001'', c_eventDate = ''2025-04-01'',
            c_eventTime = ''17:00:00'', c_branch = ''Pune'', c_selectedPackage = ''Gold'',
            c_amount = 750, c_celebrationType = ''Birthday''\<rparr>"

definition pool3 :: "booking_row \<Rightarrow> db_pool" where
  "pool3 r = \<lparr>bookings = [row1, row2, r], auto_increment = 4, outages = []\<rparr>"


definition body_bad :: booking_body where
  "body_bad = body1\<lparr>contactNumber := JStr ''123''\<rparr>"

definition req_date :: filter_query where
  "req_date = \<lparr>date = Some ''2025-03-10'', month = Some ''12'', year = Some ''1999'',
                branch = Some ''Pune''\<rparr>"

section \<open>The retry loop\<close>

lemma queryWithRetry_success:
  "0 < n \<Longrightarrow> q (pool w) sql params = (Inr r, p') \<Longrightarrow>
   queryWithRetry q sql params n w = (Inr r, attempt w p' sql params)"
  by (simp add: queryWithRetry.simps [of q sql params n w])

lemma queryWithRetry_throw:
  "0 < n \<Longrightarrow> q (pool w) sql params = (Inl e, p') \<Longrightarrow>
   \<not> (str_includes (message e) ''closed state'' \<and> 1 < n) \<Longrightarrow>
   queryWithRetry q sql params n w = (Inl e, attempt w p' sql params)"
  by (auto simp add: queryWithRetry.simps [of q sql params n w])

lemma queryWithRetry_retry:
  "1 < n \<Longrightarrow> q (pool w) sql params = (Inl e, p') \<Longrightarrow>
   str_includes (message e) ''closed state'' \<Longrightarrow>
   queryWithRetry q sql params n w
     = queryWithRetry q sql params (n - 1) (backoff (attempt w p' sql params))"
  by (simp add: queryWithRetry.simps [of q sql params n w])

lemma queryWithRetry_fallback:
  "n \<le> 0 \<Longrightarrow>
   queryWithRetry q sql params n w
     = (Inr (if str_includes (toLowerCase sql) ''select'' then Rows [] else ZeroAffected), w)"
  by (simp add: queryWithRetry.simps [of q sql params n w])

lemma pool_backoff_attempt [simp]: "pool (backoff (attempt w p sql params)) = p"
  by (simp add: backoff_def attempt_def)

lemma queries_append [simp]: "queries (a @ b) = queries a @ queries b"
  by (induction a rule: queries.induct) simp_all

lemma delays_append [simp]: "delays (a @ b) = delays a @ delays b"
  by (induction a rule: delays.induct) simp_all

lemma issued_attempt [simp]: "issued (attempt w p sql params) = issued w @ [(sql, params)]"
  by (simp add: issued_def attempt_def)

lemma issued_backoff [simp]: "issued (backoff w) = issued w"
  by (simp add: issued_def backoff_def)

lemma slept_attempt [simp]: "slept (attempt w p sql params) = slept w"
  by (simp add: slept_def attempt_def)

lemma slept_backoff [simp]: "slept (backoff w) = slept w @ [1000]"
  by (simp add: slept_def backoff_def)

lemma queryWithRetry_issues:
  "0 < n \<Longrightarrow>
   \<exists>k. 0 < k \<and> issued (snd (queryWithRetry q sql params n w)) = issued w @ replicate k (sql, params)"
proof (induction q sql params n w rule: queryWithRetry.induct)
  case (1 q sql params retries w)
  obtain a p1 where a: "q (pool w) sql params = (a, p1)"
    by (cases "q (pool w) sql params")
  let ?w1 = "attempt w p1 sql params"
  have one: "issued ?w1 = issued w @ replicate 1 (sql, params)"
    by simp
  show ?case
  proof (cases a)
    case (Inr r)
    with a 1(2) have "queryWithRetry q sql params retries w = (Inr r, ?w1)"
      by (simp add: queryWithRetry_success)
    with one show ?thesis by (metis snd_conv zero_less_one)
  next
    case (Inl e)
    show ?thesis
    proof (cases "str_includes (message e) ''closed state'' \<and> 1 < retries")
      case True
      from True have pos: "0 < retries - 1" by simp
      from 1(1) [OF 1(2) a [symmetric] Inl True pos] obtain k where
        k: "0 < k" "issued (snd (queryWithRetry q sql params (retries - 1) (backoff ?w1)))
                      = issued (backoff ?w1) @ replicate k (sql, params)"
        by blast
      from True a Inl have "queryWithRetry q sql params retries w
                              = queryWithRetry q sql params (retries - 1) (backoff ?w1)"
        by (simp add: queryWithRetry_retry)
      with k have "issued (snd (queryWithRetry q sql params retries w))
                     = issued w @ replicate (Suc k) (sql, params)"
        by simp
      then show ?thesis by blast
    next
      case False
      with a Inl 1(2) have "queryWithRetry q sql params retries w = (Inl e, ?w1)"
        by (simp add: queryWithRetry_throw)
      with one show ?thesis by (metis snd_conv zero_less_one)
    qed
  qed
qed

lemma closed_msg_closed: "str_includes closed_msg ''closed state''"
  by code_simp

lemma denied_msg_not_closed: "\<not> str_includes denied_msg ''closed state''"
  by code_simp

lemma db_query_outage:
  "db_query (pool_with (m # os)) sql params = (Inl (Error m), pool_with os)"
  by (simp add: db_query_def pool_with_def)

lemma stamp_row1:
  "db_query (pool_with []) stamp_sql [JStr ''00001'', JNum 1]
     = (Inr (ResultSetHeader 0 1), pool_with [])"
  by code_simp

text \<open>
  C4: when the first two attempts fail with a "closed state" error and the third succeeds,
  the executor returns the third attempt's result, from a budget of 3. What it did, in
  order: the statement, a delay of 1000 ms, the same statement, a delay of 1000 ms, the
  same statement; so there are exactly two retries and the delay comes before each of
  them. A failure whose message does not contain "closed state" is thrown at once: one
  attempt and no delay, whatever the remaining budget.
\<close>

theorem queryWithRetry_third_attempt:
  "(pool w = p0 \<and> q p0 sql params = (Inl e1, p1) \<and> str_includes (message e1) ''closed state''
      \<and> q p1 sql params = (Inl e2, p2) \<and> str_includes (message e2) ''closed state''
      \<and> q p2 sql params = (Inr r, p3)
    \<longrightarrow> queryWithRetry q sql params 3 w
          = (Inr r, w\<lparr>pool := p3,
                       trace := trace w @ [Query sql params, Wait 1000, Query sql params,
                                           Wait 1000, Query sql params]\<rparr>))
   \<and> (0 < n \<and> q' (pool w') sql' params' = (Inl e, p')
        \<and> \<not> str_includes (message e) ''closed state''
    \<longrightarrow> queryWithRetry q' sql' params' n w'
          = (Inl e, w'\<lparr>pool := p', trace := trace w' @ [Query sql' params']\<rparr>))"
proof (intro conjI impI)
  assume h: "pool w = p0 \<and> q p0 sql params = (Inl e1, p1)
      \<and> str_includes (message e1) ''closed state''
      \<and> q p1 sql params = (Inl e2, p2) \<and> str_includes (message e2) ''closed state''
      \<and> q p2 sql params = (Inr r, p3)"
  let ?w1 = "backoff (attempt w p1 sql params)"
  let ?w2 = "backoff (attempt ?w1 p2 sql params)"
  have "queryWithRetry q sql params 3 w = queryWithRetry q sql params 2 ?w1"
    using h queryWithRetry_retry [of 3 q w sql params e1 p1] by simp
  also have "\<dots> = queryWithRetry q sql params 1 ?w2"
    using h queryWithRetry_retry [of 2 q ?w1 sql params e2 p2] by simp
  also have "\<dots> = (Inr r, attempt ?w2 p3 sql params)"
    using h queryWithRetry_success [of 1 q ?w2 sql params r p3] by simp
  finally show "queryWithRetry q sql params 3 w
          = (Inr r, w\<lparr>pool := p3,
                       trace := trace w @ [Query sql params, Wait 1000, Query sql params,
                                           Wait 1000, Query sql params]\<rparr>)"
    by (simp add: attempt_def backoff_def)
next
  assume "0 < n \<and> q' (pool w') sql' params' = (Inl e, p')
      \<and> \<not> str_includes (message e) ''closed state''"
  then show "queryWithRetry q' sql' params' n w'
          = (Inl e, w'\<lparr>pool := p', trace := trace w' @ [Query sql' params']\<rparr>)"
    using queryWithRetry_throw [of n q' w' sql' params' e p'] by (simp add: attempt_def)
qed

theorem queryWithRetry_third_attempt_witness:
  "queryWithRetry db_query stamp_sql [JStr ''00001'', JNum 1] 3
       (world_with [closed_msg, closed_msg])
     = (Inr (ResultSetHeader 0 1),
        \<lparr>pool = pool_with [],
         trace = [Query stamp_sql [JStr ''00001'', JNum 1], Wait 1000,
                  Query stamp_sql [JStr ''00001'', JNum 1], Wait 1000,
                  Query stamp_sql [JStr ''00001'', JNum 1]]\<rparr>)
   \<and> queryWithRetry db_query stamp_sql [JStr ''00001'', JNum 1] 3 (world_with [denied_msg])
     = (Inl (Error denied_msg),
        \<lparr>pool = pool_with [], trace = [Query stamp_sql [JStr ''00001'', JNum 1]]\<rparr>)"
  using queryWithRetry_third_attempt
          [of "world_with [closed_msg, closed_msg]" "pool_with [closed_msg, closed_msg]"
              db_query stamp_sql "[JStr ''00001'', JNum 1]" "Error closed_msg"
              "pool_with [closed_msg]" "Error closed_msg" "pool_with []"
              "ResultSetHeader 0 1" "pool_with []" 3 db_query "world_with [denied_msg]"
              stamp_sql "[JStr ''00001'', JNum 1]" "Error denied_msg" "pool_with []"]
        closed_msg_closed denied_msg_not_closed stamp_row1
  by (simp add: db_query_outage world_with_def)

text \<open>
  C1: with a budget of 3, three "closed state" failures in a row do not end in the
  fallback value of the executor's last line: the guard \<^verbatim>\<open>retries > 1\<close> stops the
  decrement at 1, so the third error is thrown, after three attempts with a delay before
  the second and the third.
\<close>

theorem queryWithRetry_exhausted_throws:
  "pool w = p0 \<and> q p0 sql params = (Inl e1, p1) \<and> str_includes (message e1) ''closed state''
      \<and> q p1 sql params = (Inl e2, p2) \<and> str_includes (message e2) ''closed state''
      \<and> q p2 sql params = (Inl e3, p3) \<and> str_includes (message e3) ''closed state''
    \<longrightarrow> queryWithRetry q sql params 3 w
          = (Inl e3, w\<lparr>pool := p3,
                        trace := trace w @ [Query sql params, Wait 1000, Query sql params,
                                            Wait 1000, Query sql params]\<rparr>)"
proof
  assume h: "pool w = p0 \<and> q p0 sql params = (Inl e1, p1)
      \<and> str_includes (message e1) ''closed state''
      \<and> q p1 sql params = (Inl e2, p2) \<and> str_includes (message e2) ''closed state''
      \<and> q p2 sql params = (Inl e3, p3) \<and> str_includes (message e3) ''closed state''"
  let ?w1 = "backoff (attempt w p1 sql params)"
  let ?w2 = "backoff (attempt ?w1 p2 sql params)"
  have "queryWithRetry q sql params 3 w = queryWithRetry q sql params 2 ?w1"
    using h queryWithRetry_retry [of 3 q w sql params e1 p1] by simp
  also have "\<dots> = queryWithRetry q sql params 1 ?w2"
    using h queryWithRetry_retry [of 2 q ?w1 sql params e2 p2] by simp
  also have "\<dots> = (Inl e3, attempt ?w2 p3 sql params)"
    using h queryWithRetry_throw [of 1 q ?w2 sql params e3 p3] by simp
  finally show "queryWithRetry q sql params 3 w
          = (Inl e3, w\<lparr>pool := p3,
                        trace := trace w @ [Query sql params, Wait 1000, Query sql params,
                                            Wait 1000, Query sql params]\<rparr>)"
    by (simp add: attempt_def backoff_def)
qed

text \<open>Three outages in a row on the notifications statement: the call throws.\<close>

theorem queryWithRetry_exhausted_throws_witness:
  "queryWithRetry db_query notifications_sql [JStr ''2025-03-10''] 3
       (world_with [closed_msg, closed_msg, closed_msg])
     = (Inl (Error closed_msg),
        \<lparr>pool = pool_with [],
         trace = [Query notifications_sql [JStr ''2025-03-10''], Wait 1000,
                  Query notifications_sql [JStr ''2025-03-10''], Wait 1000,
                  Query notifications_sql [JStr ''2025-03-10'']]\<rparr>)"
  using queryWithRetry_exhausted_throws
          [of "world_with [closed_msg, closed_msg, closed_msg]"
              "pool_with [closed_msg, closed_msg, closed_msg]"
              db_query notifications_sql "[JStr ''2025-03-10'']" "Error closed_msg"
              "pool_with [closed_msg, closed_msg]" "Error closed_msg"
              "pool_with [closed_msg]" "Error closed_msg" "pool_with []"]
        closed_msg_closed
  by (simp add: db_query_outage world_with_def)

section \<open>Authorisation and required fields\<close>

text \<open>
  C8: a request to the notifications route whose \<^verbatim>\<open>admin\<close> parameter is not exactly the
  string \<^verbatim>\<open>true\<close> is answered with 403, and the world is left as it was: nothing is
  handed to the pool, whatever the pool would do. (With \<^verbatim>\<open>admin=true\<close> the notifications
  statement is issued at least once, so the frame is particular to the refusal.)
\<close>

theorem get_notifications_not_admin:
  "(admin \<noteq> Some ''true''
    \<longrightarrow> get_notifications q clk admin w
          = (Response 403 (ErrorJson ''Access denied: Admin only''), w))
   \<and> (admin = Some ''true''
    \<longrightarrow> (\<exists>k. 0 < k \<and> issued (snd (get_notifications q clk admin w))
                 = issued w @ replicate k (notifications_sql, [JStr (tomorrowDate clk)])))"
proof (intro conjI impI)
  assume "admin \<noteq> Some ''true''"
  then show "get_notifications q clk admin w
               = (Response 403 (ErrorJson ''Access denied: Admin only''), w)"
    by (cases admin) (simp_all add: get_notifications_def)
next
  assume t: "admin = Some ''true''"
  let ?r = "queryWithRetry q notifications_sql [JStr (tomorrowDate clk)] 3 w"
  have "snd (get_notifications q clk admin w) = snd ?r"
    using t by (simp add: get_notifications_def split: prod.splits sum.splits)
  then show "\<exists>k. 0 < k \<and> issued (snd (get_notifications q clk admin w))
                 = issued w @ replicate k (notifications_sql, [JStr (tomorrowDate clk)])"
    using queryWithRetry_issues [of 3 q notifications_sql "[JStr (tomorrowDate clk)]" w] by simp
qed

theorem get_notifications_not_admin_witness:
  "get_notifications db_query clock1 (Some ''TRUE'') (world_with [])
     = (Response 403 (ErrorJson ''Access denied: Admin only''), world_with [])
   \<and> get_notifications db_query clock1 None (world_with [closed_msg])
     = (Response 403 (ErrorJson ''Access denied: Admin only''), world_with [closed_msg])"
  using get_notifications_not_admin [of "Some ''TRUE''" db_query clock1 "world_with []"]
        get_notifications_not_admin [of None db_query clock1 "world_with [closed_msg]"]
  by simp

lemma missing_fields_iff:
  "missing_fields b \<longleftrightarrow> (\<exists>v \<in> set (required_values b). \<not> truthy v)"
  by (simp add: missing_fields_def required_values_def)

text \<open>
  C9: when some required field of the body is falsy (the number 0, the empty string,
  \<^verbatim>\<open>null\<close>, \<^verbatim>\<open>false\<close>, or absent), the create and the update handler both answer 400
  "All fields required" and leave the world as it was: the check is truthiness, not
  presence.
\<close>

theorem falsy_field_rejected:
  "(\<exists>v \<in> set (required_values b). \<not> truthy v)
   \<longrightarrow> post_bookings q b w = (Response 400 (ErrorJson ''All fields required''), w)
       \<and> put_bookings q ident b w = (Response 400 (ErrorJson ''All fields required''), w)"
  using missing_fields_iff [of b] by (simp add: post_bookings_def put_bookings_def)

lemma amount_zero_falsy:
  "amount (body1\<lparr>amount := JNum 0\<rparr>) \<noteq> JUndefined \<and>
   (\<exists>v \<in> set (required_values (body1\<lparr>amount := JNum 0\<rparr>)). \<not> truthy v)"
  by (simp add: required_values_def body1_def)

lemma name_empty_falsy:
  "customerName (body1\<lparr>customerName := JStr []\<rparr>) \<noteq> JUndefined \<and>
   (\<exists>v \<in> set (required_values (body1\<lparr>customerName := JStr []\<rparr>)). \<not> truthy v)"
  by (simp add: required_values_def body1_def)

theorem falsy_field_rejected_witness:
  "post_bookings db_query (body1\<lparr>amount := JNum 0\<rparr>) (world_with [])
     = (Response 400 (ErrorJson ''All fields required''), world_with [])
   \<and> put_bookings db_query ''1'' (body1\<lparr>customerName := JStr []\<rparr>) (world_with [])
     = (Response 400 (ErrorJson ''All fields required''), world_with [])"
  using falsy_field_rejected [of "body1\<lparr>amount := JNum 0\<rparr>" db_query "world_with []" "''1''"]
        falsy_field_rejected [of "body1\<lparr>customerName := JStr []\<rparr>" db_query "world_with []" "''1''"]
        amount_zero_falsy name_empty_falsy
  by simp

section \<open>The filter builder\<close>

lemma buildFilter_branch:
  "(case buildFilter (req\<lparr>branch := None\<rparr>) of
          Inl r \<Rightarrow> buildFilter req = Inl r
        | Inr (sql, ps) \<Rightarrow>
            buildFilter req
              = (if branch req = None \<or> branch req = Some [] \<or> branch req = Some ''All''
                 then Inr (sql, ps)
                 else Inr (sql @ '' AND branch = ?'', ps @ [qval (branch req)])))"
  by (cases "branch req") (auto simp add: buildFilter_def Let_def split: sum.splits prod.splits)

lemma placeholders_append [simp]: "placeholders (a @ b) = placeholders a + placeholders b"
  by (simp add: placeholders_def)

lemma placeholders_base: "placeholders filter_base = 0"
  by code_simp

lemma placeholders_frags:
  "placeholders '' AND eventDate = ?'' = 1"
  "placeholders '' AND MONTH(eventDate) = ? AND YEAR(eventDate) = ?'' = 2"
  "placeholders '' AND branch = ?'' = 1"
  by (simp_all add: placeholders_def)

lemma parse_none:
  "parse_select (sql_words filter_base) = Some ([Always], False)"
  by code_simp

lemma parse_date:
  "parse_select (sql_words (filter_base @ '' AND eventDate = ?''))
     = Some ([Always, Equals ColEventDate], False)"
  by code_simp

lemma parse_month_year:
  "parse_select (sql_words (filter_base @ '' AND MONTH(eventDate) = ? AND YEAR(eventDate) = ?''))
     = Some ([Always, Equals ColMonth, Equals ColYear], False)"
  by code_simp

lemma parse_branch:
  "parse_select (sql_words (filter_base @ '' AND branch = ?''))
     = Some ([Always, Equals ColBranch], False)"
  by code_simp

lemma parse_date_branch:
  "parse_select (sql_words (filter_base @ '' AND eventDate = ? AND branch = ?''))
     = Some ([Always, Equals ColEventDate, Equals ColBranch], False)"
  by code_simp

lemma parse_month_year_branch:
  "parse_select (sql_words (filter_base
                 @ '' AND MONTH(eventDate) = ? AND YEAR(eventDate) = ? AND branch = ?''))
     = Some ([Always, Equals ColMonth, Equals ColYear, Equals ColBranch], False)"
  by code_simp

lemmas parse_filter = parse_none parse_date parse_month_year parse_branch parse_date_branch
  parse_month_year_branch

lemma month_year_valid:
  "(isNaN m \<or> num_less m 1 \<or> num_greater m 12 \<or> isNaN y \<or> num_less y 1000)
     \<longleftrightarrow> \<not> (month_ok m \<and> year_ok y)"
  by (cases m; cases y) auto

lemma buildFilter_total:
  "buildFilter req
     = (case spec_rejection req of
          Some r \<Rightarrow> Inl r
        | None \<Rightarrow> Inr (filter_base @ concat (map fst (spec_fragments req)),
                      concat (map snd (spec_fragments req))))"
  by (simp add: buildFilter_def spec_rejection_def spec_fragments_def Let_def month_year_valid)

lemma buildFilter_fragments:
  "buildFilter req = Inr (sql, ps)
   \<Longrightarrow> sql = filter_base @ concat (map fst (spec_fragments req))
       \<and> ps = concat (map snd (spec_fragments req))"
  using buildFilter_total [of req] by (cases "spec_rejection req") simp_all

lemma fragments_placeholders:
  "list_all (\<lambda>(f, vs). placeholders f = length vs) (spec_fragments req)"
  by (simp add: spec_fragments_def placeholders_frags)

lemma buildFilter_bindings:
  "buildFilter req = Inr (sql, ps)
   \<Longrightarrow> \<exists>conds. parse_select (sql_words sql) = Some (conds, False)
                   \<and> bind conds ps = Some (spec_bindings req)"
  by (auto simp add: buildFilter_def spec_bindings_def parse_filter Let_def
      split: if_splits sum.splits prod.splits)

lemma placeholders_concat:
  "list_all (\<lambda>(f, vs). placeholders f = length vs) frs
   \<Longrightarrow> placeholders (concat (map fst frs)) = length (concat (map snd frs))"
  by (induction frs) (auto simp add: placeholders_def)

text \<open>
  C7: for every combination of the four parameters the builder either answers with the
  400 response of the validation, or produces the statement whose text is the base text
  followed by the fragments of the rules that fired and whose parameter list is the
  concatenation of those fragments' values in the same order. Each fragment has as many
  placeholders as values, so the whole text has as many placeholders as the list has
  parameters; and binding by position gives each comparison the value meant for it.
\<close>

theorem buildFilter_parameter_order:
  "buildFilter req
     = (case spec_rejection req of
          Some r \<Rightarrow> Inl r
        | None \<Rightarrow> Inr (filter_base @ concat (map fst (spec_fragments req)),
                      concat (map snd (spec_fragments req))))
   \<and> list_all (\<lambda>(f, vs). placeholders f = length vs) (spec_fragments req)
   \<and> (buildFilter req = Inr (sql, ps)
       \<longrightarrow> sql = filter_base @ concat (map fst (spec_fragments req))
           \<and> ps = concat (map snd (spec_fragments req))
           \<and> placeholders sql = length ps
           \<and> (\<exists>conds. parse_select (sql_words sql) = Some (conds, False)
                       \<and> bind conds ps = Some (spec_bindings req)))"
proof (intro conjI impI)
  show "buildFilter req
     = (case spec_rejection req of
          Some r \<Rightarrow> Inl r
        | None \<Rightarrow> Inr (filter_base @ concat (map fst (spec_fragments req)),
                      concat (map snd (spec_fragments req))))"
    by (rule buildFilter_total)
  show "list_all (\<lambda>(f, vs). placeholders f = length vs) (spec_fragments req)"
    by (rule fragments_placeholders)
next
  assume b: "buildFilter req = Inr (sql, ps)"
  note fr = buildFilter_fragments [OF b]
  from fr show "sql = filter_base @ concat (map fst (spec_fragments req))" by simp
  from fr show "ps = concat (map snd (spec_fragments req))" by simp
  show "placeholders sql = length ps"
    using fr placeholders_concat [OF fragments_placeholders [of req]]
    by (simp add: placeholders_base)
  show "\<exists>conds. parse_select (sql_words sql) = Some (conds, False)
                  \<and> bind conds ps = Some (spec_bindings req)"
    by (rule buildFilter_bindings [OF b])
qed

lemma spec_march:
  "spec_rejection req_march = None
   \<and> spec_fragments req_march
     = [('' AND MONTH(eventDate) = ? AND YEAR(eventDate) = ?'', [JNum 3, JNum 2025]),
        ('' AND branch = ?'', [JStr ''Pune''])]
   \<and> spec_bindings req_march
     = [(ColMonth, JNum 3), (ColYear, JNum 2025), (ColBranch, JStr ''Pune'')]"
  by code_simp

lemma spec_bad_date:
  "spec_rejection req_bad_date
     = Some (Response 400 (ErrorJson ''Invalid date format: Use YYYY-MM-DD''))"
  by code_simp

lemma radix_value_big: "radix_value 10 ''9007199254740993'' = 9007199254740993"
  by (simp add: radix_value_def digit_val_def is_digit_def less_eq_char_def)

lemma bitlen_big: "bitlen 9007199254740993 = 54"
  by (simp add: bitlen.simps)

lemma round_double_big: "round_double 9007199254740993 = Some 9007199254740992"
  by (simp add: round_double_def bitlen_big Let_def)

lemma parseInt_big: "parseInt ''9007199254740993'' = Finite 9007199254740992"
  by (simp add: parseInt_def Let_def is_space_def in_radix_def digit_val_def is_digit_def
      less_eq_char_def radix_value_big round_double_big)

lemma parseInt_3: "parseInt ''3'' = Finite 3"
  by code_simp

lemma spec_big_year:
  "spec_rejection req_big_year = None
   \<and> spec_fragments req_big_year
     = [('' AND MONTH(eventDate) = ? AND YEAR(eventDate) = ?'',
         [JNum 3, JNum 9007199254740992])]"
  by (simp add: spec_rejection_def spec_fragments_def req_big_year_def parseInt_big parseInt_3)

text \<open>
  A month and year with a branch give three placeholders and three parameters in the
  same order; a date in the wrong format is answered with 400 whatever else is given; a
  year beyond the exactly representable integers is bound as the double it parses to.
\<close>

theorem buildFilter_parameter_order_witness:
  "buildFilter req_march
     = Inr (filter_base @ '' AND MONTH(eventDate) = ? AND YEAR(eventDate) = ? AND branch = ?'',
            [JNum 3, JNum 2025, JStr ''Pune''])
   \<and> placeholders (filter_base
          @ '' AND MONTH(eventDate) = ? AND YEAR(eventDate) = ? AND branch = ?'') = 3
   \<and> (\<exists>conds. parse_select (sql_words (filter_base
          @ '' AND MONTH(eventDate) = ? AND YEAR(eventDate) = ? AND branch = ?''))
                = Some (conds, False)
            \<and> bind conds [JNum 3, JNum 2025, JStr ''Pune'']
                = Some [(ColMonth, JNum 3), (ColYear, JNum 2025), (ColBranch, JStr ''Pune'')])
   \<and> buildFilter req_bad_date
     = Inl (Response 400 (ErrorJson ''Invalid date format: Use YYYY-MM-DD''))
   \<and> buildFilter req_big_year
     = Inr (filter_base @ '' AND MONTH(eventDate) = ? AND YEAR(eventDate) = ?'',
            [JNum 3, JNum 9007199254740992])"
proof -
  let ?sql = "filter_base @ '' AND MONTH(eventDate) = ? AND YEAR(eventDate) = ? AND branch = ?''"
  let ?ps = "[JNum 3, JNum 2025, JStr ''Pune'']"
  note t = buildFilter_parameter_order [of req_march ?sql ?ps]
  from t spec_march have m: "buildFilter req_march = Inr (?sql, ?ps)"
    by simp
  with t spec_march
  have "placeholders ?sql = 3
        \<and> (\<exists>conds. parse_select (sql_words ?sql) = Some (conds, False)
               \<and> bind conds ?ps
                   = Some [(ColMonth, JNum 3), (ColYear, JNum 2025), (ColBranch, JStr ''Pune'')])"
    by simp
  moreover
  from buildFilter_parameter_order [of req_bad_date ?sql ?ps] spec_bad_date
  have "buildFilter req_bad_date
          = Inl (Response 400 (ErrorJson ''Invalid date format: Use YYYY-MM-DD''))"
    by simp
  moreover
  from buildFilter_parameter_order [of req_big_year ?sql ?ps] spec_big_year
  have "buildFilter req_big_year
          = Inr (filter_base @ '' AND MONTH(eventDate) = ? AND YEAR(eventDate) = ?'',
                 [JNum 3, JNum 9007199254740992])"
    by simp
  ultimately show ?thesis using m by blast
qed

section \<open>The branch sentinel\<close>

text \<open>
  C6 (amended): a request carrying only \<^verbatim>\<open>branch=All\<close> is handled exactly like a request
  with no parameters, for every pool and every state: the same statement text, the same
  (empty) parameter list, hence the same response and the same effects. In general the
  branch fragment is left out exactly when \<^verbatim>\<open>branch\<close> is absent, is the empty string, or
  is \<^verbatim>\<open>All\<close>; otherwise it is appended with the branch as its parameter.
\<close>

theorem filter_branch_all:
  "get_bookings_filter q (req_none\<lparr>branch := Some ''All''\<rparr>) w = get_bookings_filter q req_none w
   \<and> buildFilter (req_none\<lparr>branch := Some ''All''\<rparr>) = Inr (filter_base, [])
   \<and> buildFilter req_none = Inr (filter_base, [])
   \<and> (case buildFilter (req\<lparr>branch := None\<rparr>) of
          Inl r \<Rightarrow> buildFilter req = Inl r
        | Inr (sql, ps) \<Rightarrow>
            buildFilter req
              = (if branch req = None \<or> branch req = Some [] \<or> branch req = Some ''All''
                 then Inr (sql, ps)
                 else Inr (sql @ '' AND branch = ?'', ps @ [qval (branch req)])))"
proof -
  have a: "buildFilter (req_none\<lparr>branch := Some ''All''\<rparr>) = Inr (filter_base, [])"
    by (simp add: buildFilter_def req_none_def)
  have b: "buildFilter req_none = Inr (filter_base, [])"
    by (simp add: buildFilter_def req_none_def)
  have "get_bookings_filter q (req_none\<lparr>branch := Some ''All''\<rparr>) w
          = get_bookings_filter q req_none w"
    by (simp add: get_bookings_filter_def a b)
  with a b buildFilter_branch [of req] show ?thesis by simp
qed

lemma filter_none_example:
  "get_bookings_filter db_query req_none (world_with [])
     = (Response 200 (ResultJson (Rows [render row1, render row2])),
        \<lparr>pool = pool_with [], trace = [Query filter_base []]\<rparr>)"
  by code_simp

theorem filter_branch_all_witness:
  "get_bookings_filter db_query (req_none\<lparr>branch := Some ''All''\<rparr>) (world_with [])
     = (Response 200 (ResultJson (Rows [render row1, render row2])),
        \<lparr>pool = pool_with [], trace = [Query filter_base []]\<rparr>)
   \<and> buildFilter (req_none\<lparr>branch := Some ''Pune''\<rparr>)
     = Inr (filter_base @ '' AND branch = ?'', [JStr ''Pune''])"
proof -
  note t = filter_branch_all [of db_query "world_with []" "req_none\<lparr>branch := Some ''Pune''\<rparr>"]
  have n: "(req_none\<lparr>branch := Some ''Pune''\<rparr>)\<lparr>branch := None\<rparr> = req_none"
    by (simp add: req_none_def)
  from t have b: "buildFilter req_none = Inr (filter_base, [])"
    by simp
  from t have "buildFilter (req_none\<lparr>branch := Some ''Pune''\<rparr>)
               = Inr (filter_base @ '' AND branch = ?'', [JStr ''Pune''])"
    by (simp add: n b)
  moreover from t filter_none_example
  have "get_bookings_filter db_query (req_none\<lparr>branch := Some ''All''\<rparr>) (world_with [])
          = (Response 200 (ResultJson (Rows [render row1, render row2])),
             \<lparr>pool = pool_with [], trace = [Query filter_base []]\<rparr>)"
    by simp
  ultimately show ?thesis by simp
qed

text \<open>
  As first stated, with the fragment left out exactly when \<^verbatim>\<open>branch\<close> is absent or
  \<^verbatim>\<open>All\<close>, the property fails for a branch that is present and empty: the guard
  \<^verbatim>\<open>branch && branch !== 'All'\<close> is falsy there as well.
\<close>

theorem filter_branch_empty_counterexample:
  "\<not> (buildFilter (req_none\<lparr>branch := Some []\<rparr>) = Inr (filter_base, [])
        \<longleftrightarrow> (Some [] = (None :: string option) \<or> Some [] = Some ''All''))"
  by (simp add: buildFilter_def req_none_def)

section \<open>Decimal rendering of the identifier\<close>

lemma digit_char_is_digit: "d < 10 \<Longrightarrow> is_digit (digit_char d)"
  by (simp add: digit_char_def is_digit_def less_eq_char_def)


lemma digits_small: "n < 10 \<Longrightarrow> digits n = [digit_char n]"
  by (simp add: digits.simps [of n])

lemma digits_large: "\<not> n < 10 \<Longrightarrow> digits n = digits (n div 10) @ [digit_char (n mod 10)]"
  by (simp add: digits.simps [of n])

lemma digits_all_digit: "list_all is_digit (digits n)"
proof (induction n rule: digits.induct)
  case (1 n)
  then show ?case
    by (cases "n < 10") (simp_all add: digits_small digits_large digit_char_is_digit)
qed










lemma time_sec_colon: "regex_test time_sec_re s \<Longrightarrow> CHR '':'' \<in> set s"
  by (cases s; cases "tl s"; cases "tl (tl s)") (auto simp add: time_sec_re_def)

lemma string_of_int_no_colon: "CHR '':'' \<notin> set (string_of_int n)"
proof -
  have "CHR '':'' \<notin> set (digits k)" for k
    using digits_all_digit [of k] by (auto simp add: list_all_iff is_digit_def less_eq_char_def)
  then show ?thesis by (simp add: string_of_int_def)
qed

lemma time_sec_is_string: "regex_test time_sec_re (ToString v) \<Longrightarrow> \<exists>s. v = JStr s"
  using time_sec_colon [of "ToString v"] string_of_int_no_colon
  by (cases v) (auto split: if_splits)

section \<open>Creating a booking\<close>


lemma post_bookings_created:
  assumes "\<not> missing_fields b"
    and "q (pool w) insert_sql (required_values b) = (Inr r, p1)"
    and "q p1 stamp_sql [JStr (bookingId_of r), insertId r] = (Inr r2, p2)"
  shows "post_bookings q b w
           = (Response 201 (CreatedJson ''Booking created'' (bookingId_of r)),
              w\<lparr>pool := p2,
                 trace := trace w @ [Query insert_sql (required_values b),
                                       Query stamp_sql [JStr (bookingId_of r), insertId r]]\<rparr>)"
proof -
  let ?w1 = "attempt w p1 insert_sql (required_values b)"
  have 1: "queryWithRetry q insert_sql (required_values b) 3 w = (Inr r, ?w1)"
    using assms(2) by (simp add: queryWithRetry_success)
  have "pool ?w1 = p1" by (simp add: attempt_def)
  with assms(3)
  have 2: "queryWithRetry q stamp_sql [JStr (bookingId_of r), insertId r] 3 ?w1
             = (Inr r2, attempt ?w1 p2 stamp_sql [JStr (bookingId_of r), insertId r])"
    by (simp add: queryWithRetry_success)
  show ?thesis
    using assms(1) 1 2
    by (simp add: post_bookings_def required_values_def [symmetric] attempt_def Let_def)
qed




lemma bookingId_3: "bookingId_of (ResultSetHeader 3 1) = ''00003''"
  by code_simp









text \<open>
  C2: the create handler never tests \<^verbatim>\<open>contactNumber\<close> against \<^verbatim>\<open>^[0-9]{10}$\<close>. A
  body whose contact number does not match, all of whose required fields are truthy, is
  inserted and answered with 201 whenever the two statements succeed. (The update
  handler does reject it: lemma \<open>put_bookings_invalid_contact\<close>.)
\<close>

theorem post_bookings_accepts_invalid_contact:
  "\<not> missing_fields b \<and> \<not> regex_test contact_re (ToString (contactNumber b))
     \<and> q (pool w) insert_sql (required_values b) = (Inr r, p1)
     \<and> q p1 stamp_sql [JStr (bookingId_of r), insertId r] = (Inr r2, p2)
   \<longrightarrow> post_bookings q b w
         = (Response 201 (CreatedJson ''Booking created'' (bookingId_of r)),
            w\<lparr>pool := p2,
               trace := trace w @ [Query insert_sql (required_values b),
                                     Query stamp_sql [JStr (bookingId_of r), insertId r]]\<rparr>)"
  using post_bookings_created [of b q w r p1 r2 p2] by simp

lemma body_bad_facts:
  "\<not> missing_fields body_bad \<and> \<not> regex_test contact_re (ToString (contactNumber body_bad))"
  by code_simp

lemma insert_body_bad:
  "db_query (pool (world_with [])) insert_sql (required_values body_bad)
     = (Inr (ResultSetHeader 3 1),
        pool3 (row3\<lparr>c_uniqueId := None, c_contactNumber := ''123''\<rparr>))"
  by code_simp

lemma stamp_body_bad:
  "db_query (pool3 (row3\<lparr>c_uniqueId := None, c_contactNumber := ''123''\<rparr>)) stamp_sql
       [JStr ''00003'', JNum 3]
     = (Inr (ResultSetHeader 0 1), pool3 (row3\<lparr>c_contactNumber := ''123''\<rparr>))"
  by code_simp

text \<open>A create request with the contact number \<^verbatim>\<open>123\<close> is stored and answered with 201.\<close>

theorem post_bookings_accepts_invalid_contact_witness:
  "post_bookings db_query body_bad (world_with [])
     = (Response 201 (CreatedJson ''Booking created'' ''00003''),
        \<lparr>pool = pool3 (row3\<lparr>c_contactNumber := ''123''\<rparr>),
         trace = [Query insert_sql (required_values body_bad),
                   Query stamp_sql [JStr ''00003'', JNum 3]]\<rparr>)"
  using post_bookings_accepts_invalid_contact
          [of body_bad db_query "world_with []" "ResultSetHeader 3 1"
              "pool3 (row3\<lparr>c_uniqueId := None, c_contactNumber := ''123''\<rparr>)"
              "ResultSetHeader 0 1" "pool3 (row3\<lparr>c_contactNumber := ''123''\<rparr>)"]
        body_bad_facts insert_body_bad stamp_body_bad
  by (simp add: bookingId_3 world_with_def)

lemma put_bookings_invalid_contact:
  "\<not> regex_test contact_re (ToString (contactNumber b))
   \<Longrightarrow> status (fst (put_bookings q ident b w)) = 400 \<and> snd (put_bookings q ident b w) = w"
  by (simp add: put_bookings_def)

section \<open>Result sets over the reference database\<close>

lemma parse_insert: "parse_select (sql_words insert_sql) = None"
  by code_simp

lemma parse_stamp: "parse_select (sql_words stamp_sql) = None"
  by code_simp

lemma execute_select:
  assumes "parse_select (sql_words sql) = Some (conds, ord)"
  shows "execute p sql params
           = (case bind conds params of
                None \<Rightarrow> Inl syntax_error
              | Some bs \<Rightarrow>
                  if list_ex (\<lambda>b. non_finite (snd b)) bs then Inl unknown_column
                  else Inr (Rows (map render (select_rows (bookings p) bs ord)), p))"
proof -
  from assms parse_insert have "sql_words sql \<noteq> sql_words insert_sql" by auto
  moreover from assms parse_stamp have "sql_words sql \<noteq> sql_words stamp_sql" by auto
  ultimately show ?thesis using assms by (simp add: execute_def)
qed

lemma db_query_executes:
  "outages p = [] \<Longrightarrow>
   db_query p sql params
     = (case execute p sql params of Inl e \<Rightarrow> (Inl e, p) | Inr (r, p') \<Rightarrow> (Inr r, p'))"
  by (simp add: db_query_def)

lemma db_query_result:
  "queryWithRetry db_query sql params n w = (Inr r, w') \<Longrightarrow> 0 < n \<Longrightarrow>
   execute ((pool w)\<lparr>outages := []\<rparr>) sql params = Inr (r, pool w')"
proof (induction db_query sql params n w rule: queryWithRetry.induct)
  case (1 sql params retries w)
  obtain a p1 where a: "db_query (pool w) sql params = (a, p1)"
    by (cases "db_query (pool w) sql params")
  show ?case
  proof (cases a)
    case (Inr r0)
    with a 1(2,3) have eq: "r0 = r" "pool w' = p1"
      by (auto simp add: queryWithRetry.simps [of db_query sql params retries w] attempt_def)
    from a Inr have o: "outages (pool w) = []"
      by (auto simp add: db_query_def split: list.splits)
    then have u: "(pool w)\<lparr>outages := []\<rparr> = pool w" by simp
    from a Inr o have "execute (pool w) sql params = Inr (r0, p1)"
      by (auto simp add: db_query_def split: sum.splits)
    with eq show ?thesis unfolding u by simp
  next
    case (Inl e)
    show ?thesis
    proof (cases "str_includes (message e) ''closed state'' \<and> 1 < retries")
      case True
      let ?w1 = "backoff (attempt w p1 sql params)"
      from True a Inl 1(2,3)
      have rec: "queryWithRetry db_query sql params (retries - 1) ?w1 = (Inr r, w')"
        by (simp add: queryWithRetry.simps [of db_query sql params retries w])
      from True have pos: "0 < retries - 1" by simp
      have ih: "execute ((pool ?w1)\<lparr>outages := []\<rparr>) sql params = Inr (r, pool w')"
        using 1(1) [OF 1(3) a [symmetric] Inl True rec pos] .
      from a Inl have "p1\<lparr>outages := []\<rparr> = (pool w)\<lparr>outages := []\<rparr>"
        by (auto simp add: db_query_def split: list.splits sum.splits)
      with ih show ?thesis by simp
    next
      case False
      with a Inl 1(2,3) show ?thesis
        by (auto simp add: queryWithRetry.simps [of db_query sql params retries w])
    qed
  qed
qed

lemma date_re_nonempty: "regex_test date_re d \<Longrightarrow> d \<noteq> []"
  by (auto simp add: date_re_def)

lemma buildFilter_date:
  assumes "date req = Some d" "regex_test date_re d"
  shows "buildFilter req = buildFilter (req\<lparr>month := None, year := None\<rparr>)"
    and "\<exists>sql ps. buildFilter req = Inr (sql, ps)"
  using assms date_re_nonempty [of d] by (auto simp add: buildFilter_def)

lemma holds_date_bindings:
  assumes "date req = Some d" "d \<noteq> []"
  shows "list_all (holds r) (spec_bindings req)
           \<longleftrightarrow> c_eventDate r = d \<and> branch_matches (branch req) r"
  using assms
  by (cases "branch req") (auto simp add: spec_bindings_def branch_matches_def)

lemma length_of_zero: "length_of (Rows rs) = JNum 0 \<longleftrightarrow> rs = []"
  by simp

lemma date_bindings_finite:
  assumes "date req = Some d" "d \<noteq> []"
  shows "\<not> list_ex (\<lambda>b. non_finite (snd b)) (spec_bindings req)"
  using assms by (cases "branch req") (auto simp add: spec_bindings_def)

lemma filter_select_result:
  assumes "buildFilter req = Inr (sql, ps)"
    and "\<not> list_ex (\<lambda>b. non_finite (snd b)) (spec_bindings req)"
  shows "execute p sql ps
           = Inr (Rows (map render (select_rows (bookings p) (spec_bindings req) False)), p)"
proof -
  from buildFilter_bindings [OF assms(1)] obtain conds where
    "parse_select (sql_words sql) = Some (conds, False)" "bind conds ps = Some (spec_bindings req)"
    by blast
  then show ?thesis using execute_select [of sql conds False p ps] assms(2) by simp
qed

text \<open>
  C3 (amended): for a request whose \<^verbatim>\<open>date\<close> matches \<^verbatim>\<open>YYYY-MM-DD\<close>, over the
  reference database: \<^verbatim>\<open>month\<close> and \<^verbatim>\<open>year\<close> have no influence; a 200 response holds
  exactly the stored bookings on that date that also pass the branch filter (all
  branches when \<^verbatim>\<open>branch\<close> is absent, empty or \<^verbatim>\<open>All\<close>); and without outages the
  response is 404 when there is no such booking and that 200 response otherwise.
\<close>

theorem filter_by_date:
  "date req = Some d \<and> regex_test date_re d
   \<longrightarrow> get_bookings_filter db_query req w
         = get_bookings_filter db_query (req\<lparr>month := None, year := None\<rparr>) w
       \<and> (status (fst (get_bookings_filter db_query req w)) = 200
            \<longrightarrow> body (fst (get_bookings_filter db_query req w))
                  = ResultJson (Rows (map render (date_selection d (branch req) (bookings (pool w))))))
       \<and> (outages (pool w) = []
            \<longrightarrow> fst (get_bookings_filter db_query req w)
                  = (if date_selection d (branch req) (bookings (pool w)) = []
                     then Response 404 (ErrorJson ''No bookings found for the selected filters'')
                     else Response 200 (ResultJson (Rows (map render
                            (date_selection d (branch req) (bookings (pool w))))))))"
proof (intro impI)
  assume h: "date req = Some d \<and> regex_test date_re d"
  let ?sel = "date_selection d (branch req) (bookings (pool w))"
  from h have d: "d \<noteq> []" using date_re_nonempty by blast
  from h obtain sql ps where b: "buildFilter req = Inr (sql, ps)"
    using buildFilter_date(2) by blast
  have sel: "select_rows tbl (spec_bindings req) False = date_selection d (branch req) tbl" for tbl
    using h d holds_date_bindings [of req d] by (simp add: select_rows_def date_selection_def)
  have ex: "execute p sql ps
              = Inr (Rows (map render (date_selection d (branch req) (bookings p))), p)"
    for p
    using filter_select_result [OF b date_bindings_finite [of req d]] h d sel by simp
  have 1: "get_bookings_filter db_query req w
             = get_bookings_filter db_query (req\<lparr>month := None, year := None\<rparr>) w"
    using h buildFilter_date(1) [of req d] by (simp add: get_bookings_filter_def)
  have 2: "body (fst (get_bookings_filter db_query req w)) = ResultJson (Rows (map render ?sel))"
    if s: "status (fst (get_bookings_filter db_query req w)) = 200"
  proof -
    obtain a w' where q: "queryWithRetry db_query sql ps 3 w = (a, w')"
      by (cases "queryWithRetry db_query sql ps 3 w")
    show ?thesis
    proof (cases a)
      case (Inl e)
      with q b s show ?thesis by (simp add: get_bookings_filter_def)
    next
      case (Inr results)
      with q have "execute ((pool w)\<lparr>outages := []\<rparr>) sql ps = Inr (results, pool w')"
        using db_query_result [of sql ps 3 w results w'] by simp
      with ex [of "(pool w)\<lparr>outages := []\<rparr>"]
      have "results = Rows (map render ?sel)" by simp
      with q b s Inr show ?thesis
        by (simp add: get_bookings_filter_def split: if_splits)
    qed
  qed
  have 3: "fst (get_bookings_filter db_query req w)
             = (if ?sel = []
                then Response 404 (ErrorJson ''No bookings found for the selected filters'')
                else Response 200 (ResultJson (Rows (map render ?sel))))"
    if o: "outages (pool w) = []"
  proof -
    from o ex [of "pool w"]
    have "db_query (pool w) sql ps = (Inr (Rows (map render ?sel)), pool w)"
      by (simp add: db_query_executes)
    then have "queryWithRetry db_query sql ps 3 w
                 = (Inr (Rows (map render ?sel)), attempt w (pool w) sql ps)"
      by (simp add: queryWithRetry_success)
    with b show ?thesis by (simp add: get_bookings_filter_def)
  qed
  from 1 2 3 show "get_bookings_filter db_query req w
         = get_bookings_filter db_query (req\<lparr>month := None, year := None\<rparr>) w
       \<and> (status (fst (get_bookings_filter db_query req w)) = 200
            \<longrightarrow> body (fst (get_bookings_filter db_query req w))
                  = ResultJson (Rows (map render ?sel)))
       \<and> (outages (pool w) = []
            \<longrightarrow> fst (get_bookings_filter db_query req w)
                  = (if ?sel = []
                     then Response 404 (ErrorJson ''No bookings found for the selected filters'')
                     else Response 200 (ResultJson (Rows (map render ?sel)))))"
    by blast
qed

lemma req_date_facts:
  "date req_date = Some ''2025-03-10'' \<and> regex_test date_re ''2025-03-10''
   \<and> outages (pool (world_with [])) = []
   \<and> date_selection ''2025-03-10'' (branch req_date) (bookings (pool (world_with []))) = [row1]"
  by code_simp

theorem filter_by_date_witness:
  "fst (get_bookings_filter db_query req_date (world_with []))
     = Response 200 (ResultJson (Rows [render row1]))
   \<and> get_bookings_filter db_query req_date (world_with [])
     = get_bookings_filter db_query (req_date\<lparr>month := None, year := None\<rparr>) (world_with [])"
proof -
  have h: "date req_date = Some ''2025-03-10'' \<and> regex_test date_re ''2025-03-10''"
    using req_date_facts by blast
  note c = mp [OF filter_by_date [of req_date "''2025-03-10''" "world_with []"] h]
  from conjunct2 [OF conjunct2 [OF c]] req_date_facts
  have "fst (get_bookings_filter db_query req_date (world_with []))
          = Response 200 (ResultJson (Rows [render row1]))"
    by simp
  with conjunct1 [OF c] show ?thesis by blast
qed

text \<open>
  The branch does restrict a filter by date: of two bookings on the same date in different
  branches, the response to \<^verbatim>\<open>date=2025-03-10&branch=Pune\<close> holds only the one in Pune.
\<close>

theorem filter_by_date_branch_counterexample:
  "fst (get_bookings_filter db_query
          \<lparr>date = Some ''2025-03-10'', month = None, year = None, branch = Some ''Pune''\<rparr>
          (world_with []))
     = Response 200 (ResultJson (Rows [render row1]))
   \<and> map render (filter (\<lambda>r. c_eventDate r = ''2025-03-10'') (bookings (pool (world_with []))))
     = [render row1, render row2]
   \<and> Response 200 (ResultJson (Rows [render row1]))
     \<noteq> Response 200 (ResultJson (Rows [render row1, render row2]))"
  by code_simp

lemma parse_notifications:
  "parse_select (sql_words notifications_sql) = Some ([Equals ColEventDate], True)"
  by code_simp

lemma eventTime_text_render: "eventTime_text (render r) = time_format (c_eventTime r)"
  by (simp add: eventTime_text_def render_def)

lemma notifications_result:
  "execute p notifications_sql [JStr (tomorrowDate clk)]
     = Inr (Rows (map render (tomorrow_rows clk (bookings p))), p)"
  using execute_select [OF parse_notifications, of p "[JStr (tomorrowDate clk)]"]
  by (simp add: select_rows_def tomorrow_rows_def eq_commute)

text \<open>
  C10: over the reference database, a 200 response of the notifications route to an
  admin holds the bookings of tomorrow's date, and its \<^verbatim>\<open>bookings\<close> array is sorted by
  the \<^verbatim>\<open>eventTime\<close> property in ascending order.
\<close>

theorem notifications_sorted:
  "status (fst (get_notifications db_query clk (Some ''true'') w)) = 200
   \<longrightarrow> (\<exists>rs. body (fst (get_notifications db_query clk (Some ''true'') w))
               = NotificationsJson (''Bookings for tomorrow ('' @ tomorrowFormatted clk @ '')'')
                   (Rows rs)
            \<and> rs = map render (tomorrow_rows clk (bookings (pool w)))
            \<and> sorted (map eventTime_text rs))"
proof
  assume s: "status (fst (get_notifications db_query clk (Some ''true'') w)) = 200"
  let ?ps = "[JStr (tomorrowDate clk)]"
  let ?rs = "map render (tomorrow_rows clk (bookings (pool w)))"
  obtain a w' where q: "queryWithRetry db_query notifications_sql ?ps 3 w = (a, w')"
    by (cases "queryWithRetry db_query notifications_sql ?ps 3 w")
  have srt: "sorted (map eventTime_text ?rs)"
    by (simp add: comp_def eventTime_text_render tomorrow_rows_def)
  show "\<exists>rs. body (fst (get_notifications db_query clk (Some ''true'') w))
               = NotificationsJson (''Bookings for tomorrow ('' @ tomorrowFormatted clk @ '')'')
                   (Rows rs)
            \<and> rs = map render (tomorrow_rows clk (bookings (pool w)))
            \<and> sorted (map eventTime_text rs)"
  proof (cases a)
    case (Inl e)
    with q s show ?thesis by (simp add: get_notifications_def)
  next
    case (Inr results)
    with q have "execute ((pool w)\<lparr>outages := []\<rparr>) notifications_sql ?ps = Inr (results, pool w')"
      using db_query_result [of notifications_sql ?ps 3 w results w'] by simp
    then have "results = Rows ?rs"
      using notifications_result [of "(pool w)\<lparr>outages := []\<rparr>" clk] by simp
    with q Inr srt show ?thesis by (simp add: get_notifications_def)
  qed
qed

lemma tomorrow_example:
  "tomorrow_rows clock1 (bookings (pool (world_with [closed_msg]))) = [row2, row1]"
  by code_simp

lemma notifications_example:
  "fst (get_notifications db_query clock1 (Some ''true'') (world_with [closed_msg]))
     = Response 200 (NotificationsJson ''Bookings for tomorrow (10-03-2025)''
         (Rows [render row2, render row1]))"
  by code_simp

theorem notifications_sorted_witness:
  "status (fst (get_notifications db_query clock1 (Some ''true'') (world_with [closed_msg]))) = 200
   \<and> body (fst (get_notifications db_query clock1 (Some ''true'') (world_with [closed_msg])))
      = NotificationsJson ''Bookings for tomorrow (10-03-2025)'' (Rows [render row2, render row1])
   \<and> sorted (map eventTime_text [render row2, render row1])"
  using notifications_sorted [of clock1 "world_with [closed_msg]"]
        notifications_example tomorrow_example
  by (simp add: clock1_def)

end
